theory Spec2Isabelle
  imports Main
begin

section \<open>The silo table partitioner: bin/split-silo-database\<close>

text \<open>
  The script is a sequence of effects: lines printed with \<open>click.echo\<close>, commands run
  in the postgres container, and one bulk update of the OrganizationMapping table. The
  model passes a \<open>world\<close> that records these effects in the order they happen, and reads
  everything the script takes from its surroundings (the Django settings, the process
  environment, the model registry, the container) from a \<open>host\<close>.
\<close>

subsection \<open>Data\<close>

text \<open>
  Modelled from the spec: the enumeration \<open>SiloMode\<close> is imported from
  \<open>sentry.silo.base\<close>, which is not among the sources. The data model of the spec gives
  the allowed silo modes as CONTROL and REGION, the two members the script names.
\<close>

datatype SiloMode = CONTROL | REGION

text \<open>\<open>model._meta.silo_limit\<close>: the script reads only its \<open>modes\<close>.\<close>

record silo_limit =
  modes :: "SiloMode list"

text \<open>
  One entry of \<open>apps.get_models()\<close>, as far as the script looks at it:
  \<open>model._meta.db_table\<close> and \<open>getattr(model._meta, "silo_limit", None)\<close>.
\<close>

record model =
  db_table :: string
  silo_limit :: "silo_limit option"

text \<open>
  Modelled from the spec: the class \<open>OrganizationMapping\<close> is imported from
  \<open>sentry.models.organizationmapping\<close>, which is not among the sources. The spec gives
  the record a region-name field; every other column is the extension part of the record
  scheme, so a row is \<open>'m organization_mapping_scheme\<close>.
\<close>

record organization_mapping =
  region_name :: string

text \<open>
  The commands sent to containers so far, oldest first: the container's name and the
  \<open>cmd\<close> string given to its \<open>exec_run\<close>.
\<close>

type_synonym exec_log = "(string \<times> string) list"

text \<open>
  What the script reads from outside itself. The \<open>exec_run\<close> method of the docker
  container answers a command with an exit code and the captured output; its answer may
  depend on everything run before. The output is a value of the docker library
  (\<open>'o\<close>), which an f-string formats with \<open>str\<close>.
\<close>

record 'o host =
  SENTRY_MONOLITH_REGION :: string
  USE_OLD_DEVSERVICES :: "string option"
  apps_get_models :: "model list"
  container_exec_run :: "exec_log \<Rightarrow> string \<Rightarrow> string \<Rightarrow> int \<times> 'o"
  str_output :: "'o \<Rightarrow> string"

record 'm world =
  console :: "string list"
  execs :: exec_log
  OrganizationMapping_objects :: "'m organization_mapping_scheme list"

subsection \<open>Python helpers\<close>

text \<open>\<open>click.echo(line)\<close>\<close>

definition echo :: "string \<Rightarrow> 'm world \<Rightarrow> 'm world" where
  "echo line w = w\<lparr>console := console w @ [line]\<rparr>"

text \<open>\<open>sep.join(parts)\<close>\<close>

fun join :: "string \<Rightarrow> string list \<Rightarrow> string" where
  "join sep [] = []"
| "join sep [x] = x"
| "join sep (x # y # ys) = x @ sep @ join sep (y # ys)"

text \<open>\<open>str(n)\<close> of a non-negative integer, as an f-string formats \<open>len(qs)\<close>.\<close>

function str_nat :: "nat \<Rightarrow> string" where
  "str_nat n =
     (if n < 10 then [''0123456789'' ! n]
      else str_nat (n div 10) @ [''0123456789'' ! (n mod 10)])"
  by pat_completeness auto
termination
  by (relation "measure id") auto

declare str_nat.simps [simp del]

subsection \<open>exec_run\<close>

text \<open>
  \<^verbatim>\<open>
  def exec_run(container, command):
      wrapped_command = f'sh -c "{" ".join(command)}"'
      exit_code, output = container.exec_run(cmd=wrapped_command, stdout=True, stderr=True)
      if exit_code:
          click.echo("Container operation Failed!")
          click.echo(f"Container operation failed with {output}")
      return output
  \<close>
  The container is given by its name. The function returns \<open>output\<close> and the world
  after the call.
\<close>

definition wrapped_command :: "string list \<Rightarrow> string" where
  "wrapped_command command = ''sh -c '' @ [CHR 0x22] @ join '' '' command @ [CHR 0x22]"

definition exec_run :: "'o host \<Rightarrow> string \<Rightarrow> string list \<Rightarrow> 'm world \<Rightarrow> 'o \<times> 'm world" where
  "exec_run h container command w =
     (let cmd = wrapped_command command;
          (exit_code, output) = container_exec_run h (execs w) container cmd;
          w = w\<lparr>execs := execs w @ [(container, cmd)]\<rparr>;
          w = (if exit_code \<noteq> 0
               then echo (''Container operation failed with '' @ str_output h output)
                      (echo ''Container operation Failed!'' w)
               else w)
      in (output, w))"

subsection \<open>split_database\<close>

text \<open>
  The dump command of lines 29 to 32: the fixed head, \<open>-t table\<close> for each table of the
  list in order (the \<open>for\<close> loop), then the redirection to the dump file.
\<close>

definition dump_file :: "string \<Rightarrow> string" where
  "dump_file destination = ''/tmp/'' @ destination @ ''-tables.sql''"

definition dump_command :: "string list \<Rightarrow> string \<Rightarrow> string \<Rightarrow> string list" where
  "dump_command tables source destination =
     (let command = [''pg_dump'', ''-U'', ''postgres'', ''-d'', source, ''--clean''];
          command = foldl (\<lambda>command table. command @ [''-t'', table]) command tables;
          command = command @ [''>'', dump_file destination]
      in command)"

definition citext_command :: "string \<Rightarrow> string list" where
  "citext_command destination =
     [''psql'', ''-U'', ''postgres'', destination, ''-c'',
      [CHR 0x27] @ ''CREATE EXTENSION IF NOT EXISTS citext'' @ [CHR 0x27]]"

definition import_command :: "string \<Rightarrow> string list" where
  "import_command destination =
     [''psql'', ''-U'', ''postgres'', destination, ''<'', dump_file destination]"

text \<open>
  \<open>client.containers.get(postgres_container)\<close>: the container is looked up by a name
  that depends on the environment variable \<open>USE_OLD_DEVSERVICES\<close>.
\<close>

definition postgres_container :: "'o host \<Rightarrow> string" where
  "postgres_container h =
     (if USE_OLD_DEVSERVICES h \<noteq> Some ''1'' then ''sentry-postgres-1'' else ''sentry_postgres'')"

text \<open>
  \<open>split_database(tables, source, destination, reset, verbose)\<close>, statement by
  statement. The value \<open>exec_run\<close> returns is dropped at each call, as in the source.
\<close>

definition split_database ::
  "'o host \<Rightarrow> string list \<Rightarrow> string \<Rightarrow> string \<Rightarrow> bool \<Rightarrow> bool \<Rightarrow> 'm world \<Rightarrow> 'm world" where
  "split_database h tables source destination reset verbose w =
     (let w = echo (''>> Dumping tables from '' @ source @ '' database'') w;
          command = dump_command tables source destination;
          postgres = postgres_container h;
          w = (if verbose then echo (''>> Running '' @ join '' '' command) w else w);
          w = snd (exec_run h postgres command w);
          w = (if reset
               then let w = echo (''>> Dropping existing '' @ destination @ '' database'') w;
                        w = snd (exec_run h postgres
                              [''dropdb'', ''-U'', ''postgres'', ''--if-exists'', destination] w);
                        w = snd (exec_run h postgres
                              [''createdb'', ''-U'', ''postgres'', destination] w)
                    in w
               else w);
          w = (if verbose
               then echo (''>> RUNNING: '' @ join '' '' (citext_command destination)) w
               else w);
          w = snd (exec_run h postgres (citext_command destination) w);
          w = echo (''>> Building '' @ destination @ '' database from dump file'') w;
          w = (if verbose
               then echo (''>> Running '' @ join '' '' (import_command destination)) w
               else w);
          w = snd (exec_run h postgres (import_command destination) w)
      in w)"

subsection \<open>revise_organization_mappings\<close>

text \<open>
  \<^verbatim>\<open>
  def revise_organization_mappings(legacy_region_name: str):
      if settings.SENTRY_MONOLITH_REGION == legacy_region_name:
          click.echo("> No OrganizationMapping have been modified. ...")
      else:
          qs = OrganizationMapping.objects.filter(region_name=legacy_region_name)
          record_count = len(qs)
          qs.update(region_name=settings.SENTRY_MONOLITH_REGION)
          click.echo(f"> {record_count} OrganizationMapping record(s) have been updated from ...")
  \<close>
  \<open>len(qs)\<close> counts the rows the filter selects; \<open>qs.update\<close> sets the column on the
  rows the filter selects and on no other.
\<close>

definition qs_update ::
  "string \<Rightarrow> string \<Rightarrow> 'm organization_mapping_scheme list \<Rightarrow> 'm organization_mapping_scheme list" where
  "qs_update legacy_region_name new_region_name rows =
     map (\<lambda>r. if region_name r = legacy_region_name
               then r\<lparr>region_name := new_region_name\<rparr> else r) rows"

definition updated_message :: "nat \<Rightarrow> string \<Rightarrow> string \<Rightarrow> string" where
  "updated_message record_count legacy_region_name monolith_region =
     ''> '' @ str_nat record_count @ '' OrganizationMapping record(s) have been updated from ''
       @ [CHR 0x27] @ legacy_region_name @ [CHR 0x27] @ '' to ''
       @ [CHR 0x27] @ monolith_region @ [CHR 0x27]"

definition not_modified_message :: string where
  "not_modified_message =
     ''> No OrganizationMapping have been modified. Set ''
       @ [CHR 0x27] @ ''SENTRY_MONOLITH_REGION'' @ [CHR 0x27]
       @ '' in sentry.conf.py to update monolith mappings.''"

definition revise_organization_mappings :: "'o host \<Rightarrow> string \<Rightarrow> 'm world \<Rightarrow> 'm world" where
  "revise_organization_mappings h legacy_region_name w =
     (if SENTRY_MONOLITH_REGION h = legacy_region_name
      then echo not_modified_message w
      else
        (let qs = filter (\<lambda>r. region_name r = legacy_region_name) (OrganizationMapping_objects w);
             record_count = length qs;
             w = w\<lparr>OrganizationMapping_objects :=
                     qs_update legacy_region_name (SENTRY_MONOLITH_REGION h)
                       (OrganizationMapping_objects w)\<rparr>
         in echo (updated_message record_count legacy_region_name (SENTRY_MONOLITH_REGION h)) w))"

subsection \<open>main\<close>

text \<open>The two lists as \<open>main\<close> starts them (lines 118 to 131).\<close>

definition region_tables_seed :: "string list" where
  "region_tables_seed = [''django_migrations'', ''django_content_type'']"

definition control_tables_seed :: "string list" where
  "control_tables_seed =
     [''django_migrations'', ''django_admin_log'', ''django_content_type'', ''django_site'',
      ''django_session'', ''auth_user'', ''auth_group'', ''auth_permission'',
      ''auth_group_permissions'', ''auth_user_groups'', ''auth_user_user_permissions'']"

text \<open>
  The body of the loop over \<open>apps.get_models()\<close> (lines 133 to 140), on the pair of
  lists and the world: a model without \<open>silo_limit\<close> is reported and skipped
  (\<open>continue\<close>), any other model is appended to each list whose mode it allows.
\<close>

definition classify_model ::
  "model \<Rightarrow> string list \<times> string list \<times> 'm world \<Rightarrow> string list \<times> string list \<times> 'm world" where
  "classify_model m acc =
     (case acc of (control_tables, region_tables, w) \<Rightarrow>
        (case silo_limit m of
           None \<Rightarrow>
             (control_tables, region_tables,
              echo (''> Could not find silo assignment for '' @ db_table m) w)
         | Some limit \<Rightarrow>
             (let control_tables =
                    (if CONTROL \<in> set (modes limit)
                     then control_tables @ [db_table m] else control_tables);
                  region_tables =
                    (if REGION \<in> set (modes limit)
                     then region_tables @ [db_table m] else region_tables)
              in (control_tables, region_tables, w))))"

text \<open>Lines 118 to 140: the seeds, then the loop over the registry.\<close>

definition classify_models ::
  "model list \<Rightarrow> 'm world \<Rightarrow> string list \<times> string list \<times> 'm world" where
  "classify_models models w =
     foldl (\<lambda>acc m. classify_model m acc) (control_tables_seed, region_tables_seed, w) models"

text \<open>
  \<open>main(database, reset, verbose, legacy_region_name)\<close>: the lists, the mapping rewrite,
  and the two splits (lines 142 to 144).
\<close>

definition main :: "'o host \<Rightarrow> string \<Rightarrow> bool \<Rightarrow> bool \<Rightarrow> string \<Rightarrow> 'm world \<Rightarrow> 'm world" where
  "main h database reset verbose legacy_region_name w =
     (case classify_models (apps_get_models h) w of (control_tables, region_tables, w) \<Rightarrow>
        (let w = revise_organization_mappings h legacy_region_name w;
             w = split_database h control_tables database ''control'' reset verbose w;
             w = split_database h region_tables database ''region'' reset verbose w
         in w))"

section \<open>Vocabulary of the properties\<close>

text \<open>A model allows a mode when it has a \<open>silo_limit\<close> whose \<open>modes\<close> contain it.\<close>

definition allows :: "SiloMode \<Rightarrow> model \<Rightarrow> bool" where
  "allows mode m =
     (case silo_limit m of None \<Rightarrow> False | Some limit \<Rightarrow> mode \<in> set (modes limit))"

text \<open>The line printed for a model that has no \<open>silo_limit\<close>.\<close>

definition warning :: "model \<Rightarrow> string" where
  "warning m = ''> Could not find silo assignment for '' @ db_table m"

text \<open>
  The lines \<open>exec_run\<close> prints for the command string \<open>cmd\<close> sent to \<open>container\<close> after
  the commands of \<open>log\<close>: two lines when the exit code is not zero, none otherwise.
\<close>

definition failure_lines :: "'o host \<Rightarrow> exec_log \<Rightarrow> string \<Rightarrow> string \<Rightarrow> string list" where
  "failure_lines h log container cmd =
     (case container_exec_run h log container cmd of
        (exit_code, output) \<Rightarrow>
          if exit_code \<noteq> 0
          then [''Container operation Failed!'',
                ''Container operation failed with '' @ str_output h output]
          else [])"

text \<open>
  The host whose container answers every command with exit code 0 and the output the
  container of \<open>h\<close> gives.
\<close>

definition always_succeeds :: "'o host \<Rightarrow> 'o host" where
  "always_succeeds h =
     h\<lparr>container_exec_run :=
         (\<lambda>log container cmd. (0, snd (container_exec_run h log container cmd)))\<rparr>"

text \<open>
  Every command run from position \<open>n\<close> of the log on has its failure lines on the
  console: for the \<open>i\<close>-th command, the lines the container's answer after the first
  \<open>i\<close> commands calls for.
\<close>

definition reported :: "'o host \<Rightarrow> nat \<Rightarrow> 'm world \<Rightarrow> bool" where
  "reported h n w =
     list_all
       (\<lambda>i. set (failure_lines h (take i (execs w)) (fst (execs w ! i)) (snd (execs w ! i)))
               \<subseteq> set (console w))
       [n..<length (execs w)]"

text \<open>
  Concrete inputs for the examples: an empty world, a world with three mapping rows, two
  models of the registry, a host whose container succeeds and one whose container fails
  every command.
\<close>

definition w0 :: "unit world" where
  "w0 = \<lparr>console = [], execs = [], OrganizationMapping_objects = []\<rparr>"

definition mapped_world :: "unit world" where
  "mapped_world =
     \<lparr>console = [], execs = [],
      OrganizationMapping_objects =
        [\<lparr>region_name = ''old-region''\<rparr>, \<lparr>region_name = ''us''\<rparr>,
         \<lparr>region_name = ''old-region''\<rparr>]\<rparr>"

definition user_model :: model where
  "user_model = \<lparr>db_table = ''auth_user'', silo_limit = Some \<lparr>modes = [CONTROL]\<rparr>\<rparr>"

definition content_type_model :: model where
  "content_type_model = \<lparr>db_table = ''django_content_type'', silo_limit = None\<rparr>"

definition quiet_host :: "string host" where
  "quiet_host =
     \<lparr>SENTRY_MONOLITH_REGION = ''us'',
      USE_OLD_DEVSERVICES = None,
      apps_get_models = [user_model, content_type_model],
      container_exec_run = (\<lambda>log container cmd. (0, ''done'')),
      str_output = (\<lambda>output. output)\<rparr>"

definition failing_host :: "string host" where
  "failing_host =
     \<lparr>SENTRY_MONOLITH_REGION = ''us'',
      USE_OLD_DEVSERVICES = None,
      apps_get_models = [user_model, content_type_model],
      container_exec_run = (\<lambda>log container cmd. (1, ''boom'')),
      str_output = (\<lambda>output. output)\<rparr>"

section \<open>Properties\<close>

subsection \<open>The effects of echo and exec_run\<close>

lemma echo_proj [simp]:
  "execs (echo line w) = execs w"
  "console (echo line w) = console w @ [line]"
  "OrganizationMapping_objects (echo line w) = OrganizationMapping_objects w"
  by (simp_all add: echo_def)

lemma exec_run_world:
  "snd (exec_run h container command w) =
     w\<lparr>console := console w @ failure_lines h (execs w) container (wrapped_command command),
       execs := execs w @ [(container, wrapped_command command)]\<rparr>"
  by (simp add: exec_run_def failure_lines_def echo_def Let_def split: prod.splits)

lemma exec_run_proj [simp]:
  "execs (snd (exec_run h container command w)) =
     execs w @ [(container, wrapped_command command)]"
  "console (snd (exec_run h container command w)) =
     console w @ failure_lines h (execs w) container (wrapped_command command)"
  "OrganizationMapping_objects (snd (exec_run h container command w)) =
     OrganizationMapping_objects w"
  by (simp_all add: exec_run_world)

subsection \<open>The table lists\<close>

lemma classify_model_step:
  "classify_model m (c, r, w) =
     (c @ (if allows CONTROL m then [db_table m] else []),
      r @ (if allows REGION m then [db_table m] else []),
      w\<lparr>console := console w @ (if silo_limit m = None then [warning m] else [])\<rparr>)"
  by (cases "silo_limit m")
     (simp_all add: classify_model_def allows_def warning_def echo_def Let_def)

lemma classify_loop:
  "foldl (\<lambda>acc m. classify_model m acc) (c, r, w) models =
     (c @ map db_table (filter (allows CONTROL) models),
      r @ map db_table (filter (allows REGION) models),
      w\<lparr>console := console w @ map warning (filter (\<lambda>m. silo_limit m = None) models)\<rparr>)"
proof (induction models arbitrary: c r w)
  case Nil
  show ?case by simp
next
  case (Cons m models)
  show ?case
    by (simp add: Cons.IH classify_model_step)
qed

lemma classify_models_eq:
  "classify_models models w =
     (control_tables_seed @ map db_table (filter (allows CONTROL) models),
      region_tables_seed @ map db_table (filter (allows REGION) models),
      w\<lparr>console := console w @ map warning (filter (\<lambda>m. silo_limit m = None) models)\<rparr>)"
  by (simp add: classify_models_def classify_loop)

lemma filter_removeAll_skip:
  "\<not> P m \<Longrightarrow> filter P (removeAll m models) = filter P models"
  by (induction models) auto

text \<open>
  C3. A registered model whose silo limit allows CONTROL and not REGION: the loop body
  appends its table to the control list and leaves the region list as it is. Over the
  whole registry, the table is in the control list that results, and the region list is
  the one the registry without this model gives.
\<close>

theorem control_only_model_classified:
  assumes "silo_limit m = Some limit"
    and "CONTROL \<in> set (modes limit)"
    and "REGION \<notin> set (modes limit)"
  shows "classify_model m (control_tables, region_tables, w) =
           (control_tables @ [db_table m], region_tables, w)
         \<and> (m \<in> set models \<longrightarrow>
              db_table m \<in> set (fst (classify_models models w))
              \<and> fst (snd (classify_models (removeAll m models) w)) =
                  fst (snd (classify_models models w)))"
proof -
  have c: "allows CONTROL m" and r: "\<not> allows REGION m"
    using assms by (simp_all add: allows_def)
  have step: "classify_model m (control_tables, region_tables, w) =
                (control_tables @ [db_table m], region_tables, w)"
    using assms by (simp add: classify_model_def)
  have "db_table m \<in> set (fst (classify_models models w))" if "m \<in> set models"
    using that c by (simp add: classify_models_eq)
  moreover have "fst (snd (classify_models (removeAll m models) w)) =
                   fst (snd (classify_models models w))"
    using r by (simp add: classify_models_eq filter_removeAll_skip)
  ultimately show ?thesis
    using step by simp
qed

theorem control_only_model_classified_witness:
  "classify_model user_model ([], [], w0) = ([''auth_user''], [], w0)
   \<and> ''auth_user'' \<in> set (fst (classify_models [user_model] w0))
   \<and> fst (snd (classify_models [] w0)) = fst (snd (classify_models [user_model] w0))"
  using control_only_model_classified
    [of user_model "\<lparr>modes = [CONTROL]\<rparr>" "[]" "[]" w0 "[user_model]"]
  by (simp add: user_model_def)

text \<open>
  C4. A registered model without silo limit: the loop body prints the warning that names
  its table and changes neither list. Over the whole registry, the warning is on the
  console, and both lists are the ones the registry without this model gives.
\<close>

theorem unassigned_model_skipped:
  assumes "silo_limit m = None"
  shows "classify_model m (control_tables, region_tables, w) =
           (control_tables, region_tables,
            echo (''> Could not find silo assignment for '' @ db_table m) w)
         \<and> (m \<in> set models \<longrightarrow>
              (''> Could not find silo assignment for '' @ db_table m)
                \<in> set (console (snd (snd (classify_models models w))))
              \<and> fst (classify_models (removeAll m models) w) = fst (classify_models models w)
              \<and> fst (snd (classify_models (removeAll m models) w)) =
                  fst (snd (classify_models models w)))"
proof -
  have c: "\<not> allows CONTROL m" and r: "\<not> allows REGION m"
    using assms by (simp_all add: allows_def)
  have step: "classify_model m (control_tables, region_tables, w) =
           (control_tables, region_tables,
            echo (''> Could not find silo assignment for '' @ db_table m) w)"
    using assms by (simp add: classify_model_def)
  have "warning m \<in> set (console (snd (snd (classify_models models w))))"
    if "m \<in> set models"
    using that assms by (simp add: classify_models_eq)
  then have "m \<in> set models \<Longrightarrow>
      (''> Could not find silo assignment for '' @ db_table m)
        \<in> set (console (snd (snd (classify_models models w))))"
    by (simp only: warning_def)
  moreover have "fst (classify_models (removeAll m models) w) = fst (classify_models models w)"
    using c by (simp add: classify_models_eq filter_removeAll_skip)
  moreover have "fst (snd (classify_models (removeAll m models) w)) =
                   fst (snd (classify_models models w))"
    using r by (simp add: classify_models_eq filter_removeAll_skip)
  ultimately show ?thesis
    using step by blast
qed

theorem unassigned_model_skipped_witness:
  "classify_model content_type_model ([], [], w0) =
     ([], [], w0\<lparr>console := [''> Could not find silo assignment for django_content_type'']\<rparr>)
   \<and> ''> Could not find silo assignment for django_content_type''
        \<in> set (console (snd (snd (classify_models [content_type_model] w0))))
   \<and> fst (classify_models [] w0) = fst (classify_models [content_type_model] w0)
   \<and> fst (snd (classify_models [] w0)) = fst (snd (classify_models [content_type_model] w0))"
  using unassigned_model_skipped [of content_type_model "[]" "[]" w0 "[content_type_model]"]
  by (simp add: content_type_model_def echo_def w0_def)


text \<open>
  C8, as stated, fails: the lists are built with \<open>append\<close> alone. The registry that
  holds one model with table \<open>auth_user\<close> and mode CONTROL gives a control list in
  which \<open>auth_user\<close> stands twice, once from the seed and once from the model.
\<close>

theorem table_lists_not_deduplicated:
  "fst (classify_models [user_model] w0) =
     [''django_migrations'', ''django_admin_log'', ''django_content_type'', ''django_site'',
      ''django_session'', ''auth_user'', ''auth_group'', ''auth_permission'',
      ''auth_group_permissions'', ''auth_user_groups'', ''auth_user_user_permissions'',
      ''auth_user'']
   \<and> \<not> distinct (fst (classify_models [user_model] w0))"
  by (simp add: classify_models_def classify_model_def control_tables_seed_def user_model_def)

text \<open>
  C8, amended. Each list is its seed followed by the tables of the models that allow the
  mode, in registry order, every occurrence kept. A list is free of duplicates exactly
  when those tables are pairwise different and none of them is in the seed.
\<close>

theorem table_lists_are_seed_then_models:
  "fst (classify_models models w) =
     control_tables_seed @ map db_table (filter (allows CONTROL) models)
   \<and> fst (snd (classify_models models w)) =
     region_tables_seed @ map db_table (filter (allows REGION) models)
   \<and> distinct (fst (classify_models models w)) =
       (distinct (map db_table (filter (allows CONTROL) models))
        \<and> set control_tables_seed \<inter> db_table ` set (filter (allows CONTROL) models) = {})
   \<and> distinct (fst (snd (classify_models models w))) =
       (distinct (map db_table (filter (allows REGION) models))
        \<and> set region_tables_seed \<inter> db_table ` set (filter (allows REGION) models) = {})"
proof -
  have "distinct control_tables_seed" "distinct region_tables_seed"
    by (simp_all add: control_tables_seed_def region_tables_seed_def)
  then show ?thesis
    by (simp add: classify_models_eq)
qed

subsection \<open>The mapping rewrite\<close>

lemma str_nat_digit: "n < 10 \<Longrightarrow> str_nat n = [''0123456789'' ! n]"
  by (simp add: str_nat.simps)

lemma length_filter_index:
  "length (filter (\<lambda>i. P (xs ! i)) [0..<length xs]) = length (filter P xs)"
proof -
  have "filter P (map ((!) xs) [0..<length xs]) =
          map ((!) xs) (filter (\<lambda>i. P (xs ! i)) [0..<length xs])"
    by (simp add: filter_map comp_def)
  then have "length (filter P (map ((!) xs) [0..<length xs])) =
               length (filter (\<lambda>i. P (xs ! i)) [0..<length xs])"
    by simp
  then show ?thesis
    by (simp add: map_nth)
qed

lemma revise_same:
  "SENTRY_MONOLITH_REGION h = l \<Longrightarrow>
     revise_organization_mappings h l w = echo not_modified_message w"
  by (simp add: revise_organization_mappings_def)

lemma revise_other:
  "SENTRY_MONOLITH_REGION h \<noteq> l \<Longrightarrow>
     revise_organization_mappings h l w =
       w\<lparr>console := console w @
             [updated_message (length (filter (\<lambda>r. region_name r = l)
                (OrganizationMapping_objects w))) l (SENTRY_MONOLITH_REGION h)],
         OrganizationMapping_objects :=
           qs_update l (SENTRY_MONOLITH_REGION h) (OrganizationMapping_objects w)\<rparr>"
  by (simp add: revise_organization_mappings_def Let_def echo_def)

lemma revise_execs [simp]: "execs (revise_organization_mappings h l w) = execs w"
  by (cases "SENTRY_MONOLITH_REGION h = l") (simp_all add: revise_same revise_other)

lemma revise_console:
  "console (revise_organization_mappings h l w) =
     console w @
       [if SENTRY_MONOLITH_REGION h = l then not_modified_message
        else updated_message
               (length (filter (\<lambda>r. region_name r = l) (OrganizationMapping_objects w)))
               l (SENTRY_MONOLITH_REGION h)]"
  by (simp add: revise_same revise_other)

lemma qs_update_changed:
  assumes "new \<noteq> l" and "i < length rows"
  shows "(qs_update l new rows ! i \<noteq> rows ! i) = (region_name (rows ! i) = l)"
proof (cases "region_name (rows ! i) = l")
  case True
  then have "region_name (qs_update l new rows ! i) = new"
    using assms by (simp add: qs_update_def)
  then show ?thesis
    using True assms by auto
next
  case False
  then show ?thesis
    using assms by (simp add: qs_update_def)
qed

text \<open>
  C1. When the configured monolith region is the legacy name, the call leaves the mapping
  rows as they are. Otherwise, with \<open>n\<close> the number of rows whose region is the legacy
  name: the table keeps its length, each row with the legacy name gets the configured
  name and every other row stays, exactly \<open>n\<close> rows differ from before, and the line
  printed reports \<open>n\<close>.
\<close>

theorem revise_organization_mappings_counts:
  "(SENTRY_MONOLITH_REGION h = l \<longrightarrow>
      OrganizationMapping_objects (revise_organization_mappings h l w) =
        OrganizationMapping_objects w)
   \<and> (SENTRY_MONOLITH_REGION h \<noteq> l \<longrightarrow>
        (let rows = OrganizationMapping_objects w;
             rows' = OrganizationMapping_objects (revise_organization_mappings h l w);
             n = length (filter (\<lambda>r. region_name r = l) rows)
         in length rows' = length rows
            \<and> (\<forall>i<length rows.
                  rows' ! i =
                    (if region_name (rows ! i) = l
                     then (rows ! i)\<lparr>region_name := SENTRY_MONOLITH_REGION h\<rparr>
                     else rows ! i))
            \<and> length (filter (\<lambda>i. rows' ! i \<noteq> rows ! i) [0..<length rows]) = n
            \<and> console (revise_organization_mappings h l w) =
                console w @
                  [''> '' @ str_nat n
                    @ '' OrganizationMapping record(s) have been updated from ''
                    @ [CHR 0x27] @ l @ [CHR 0x27] @ '' to ''
                    @ [CHR 0x27] @ SENTRY_MONOLITH_REGION h @ [CHR 0x27]]))"
proof (cases "SENTRY_MONOLITH_REGION h = l")
  case True
  then show ?thesis
    by (simp add: revise_same)
next
  case False
  let ?rows = "OrganizationMapping_objects w"
  let ?new = "qs_update l (SENTRY_MONOLITH_REGION h) ?rows"
  have rows': "OrganizationMapping_objects (revise_organization_mappings h l w) = ?new"
    using False by (simp add: revise_other)
  have len: "length ?new = length ?rows"
    by (simp add: qs_update_def)
  have each: "\<forall>i<length ?rows.
                ?new ! i =
                  (if region_name (?rows ! i) = l
                   then (?rows ! i)\<lparr>region_name := SENTRY_MONOLITH_REGION h\<rparr>
                   else ?rows ! i)"
    by (simp add: qs_update_def)
  have "filter (\<lambda>i. ?new ! i \<noteq> ?rows ! i) [0..<length ?rows] =
          filter (\<lambda>i. region_name (?rows ! i) = l) [0..<length ?rows]"
    using False by (intro filter_cong) (simp_all add: qs_update_changed)
  then have count: "length (filter (\<lambda>i. ?new ! i \<noteq> ?rows ! i) [0..<length ?rows]) =
                      length (filter (\<lambda>r. region_name r = l) ?rows)"
    using length_filter_index [of "\<lambda>r. region_name r = l" ?rows] by simp
  have msg: "console (revise_organization_mappings h l w) =
               console w @
                 [''> '' @ str_nat (length (filter (\<lambda>r. region_name r = l) ?rows))
                   @ '' OrganizationMapping record(s) have been updated from ''
                   @ [CHR 0x27] @ l @ [CHR 0x27] @ '' to ''
                   @ [CHR 0x27] @ SENTRY_MONOLITH_REGION h @ [CHR 0x27]]"
    using False by (simp add: revise_other updated_message_def)
  show ?thesis
    using False len each count msg by (simp only: rows' Let_def) simp
qed

theorem revise_organization_mappings_counts_witness:
  "SENTRY_MONOLITH_REGION quiet_host = ''us''
   \<and> OrganizationMapping_objects (revise_organization_mappings quiet_host ''us'' mapped_world) =
       OrganizationMapping_objects mapped_world
   \<and> SENTRY_MONOLITH_REGION quiet_host \<noteq> ''old-region''
   \<and> OrganizationMapping_objects
         (revise_organization_mappings quiet_host ''old-region'' mapped_world) =
       [\<lparr>region_name = ''us''\<rparr>, \<lparr>region_name = ''us''\<rparr>, \<lparr>region_name = ''us''\<rparr>]
   \<and> console (revise_organization_mappings quiet_host ''old-region'' mapped_world) =
       [''> 2 OrganizationMapping record(s) have been updated from ''
          @ [CHR 0x27] @ ''old-region'' @ [CHR 0x27] @ '' to '' @ [CHR 0x27] @ ''us'' @ [CHR 0x27]]"
  using revise_organization_mappings_counts [of quiet_host "''us''" mapped_world]
    revise_organization_mappings_counts [of quiet_host "''old-region''" mapped_world]
  by (simp add: quiet_host_def mapped_world_def Let_def str_nat_digit
        revise_organization_mappings_def qs_update_def updated_message_def echo_def)

text \<open>
  C9. When the configured monolith region differs from the legacy name: after the call no
  mapping row has the legacy name, the table keeps its length, and each row whose region
  was not the legacy name is the row it was, in every field.
\<close>

theorem revise_organization_mappings_frame:
  assumes "SENTRY_MONOLITH_REGION h \<noteq> l"
  shows "(\<forall>r \<in> set (OrganizationMapping_objects (revise_organization_mappings h l w)).
            region_name r \<noteq> l)
         \<and> length (OrganizationMapping_objects (revise_organization_mappings h l w)) =
             length (OrganizationMapping_objects w)
         \<and> (\<forall>i<length (OrganizationMapping_objects w).
               region_name (OrganizationMapping_objects w ! i) \<noteq> l \<longrightarrow>
                 OrganizationMapping_objects (revise_organization_mappings h l w) ! i =
                   OrganizationMapping_objects w ! i)"
  using assms by (auto simp add: revise_other qs_update_def)

theorem revise_organization_mappings_frame_witness:
  "SENTRY_MONOLITH_REGION quiet_host \<noteq> ''old-region''
   \<and> map region_name
         (OrganizationMapping_objects
           (revise_organization_mappings quiet_host ''old-region'' mapped_world)) =
       [''us'', ''us'', ''us'']
   \<and> region_name (OrganizationMapping_objects mapped_world ! 1) \<noteq> ''old-region''
   \<and> OrganizationMapping_objects
         (revise_organization_mappings quiet_host ''old-region'' mapped_world) ! 1 =
       OrganizationMapping_objects mapped_world ! 1"
  using revise_organization_mappings_frame [of quiet_host "''old-region''" mapped_world]
  by (simp add: quiet_host_def mapped_world_def Let_def
        revise_organization_mappings_def qs_update_def echo_def)

subsection \<open>The commands of split_database and main\<close>

lemma dump_loop:
  "foldl (\<lambda>command table. command @ [''-t'', table]) command tables =
     command @ concat (map (\<lambda>table. [''-t'', table]) tables)"
  by (induction tables arbitrary: command) simp_all

lemma dump_command_eq:
  "dump_command tables source destination =
     [''pg_dump'', ''-U'', ''postgres'', ''-d'', source, ''--clean'']
       @ concat (map (\<lambda>table. [''-t'', table]) tables)
       @ [''>'', ''/tmp/'' @ destination @ ''-tables.sql'']"
  by (simp add: dump_command_def dump_file_def dump_loop)

lemma split_database_execs:
  "execs (split_database h tables source destination reset verbose w) =
     execs w @ map (\<lambda>command. (postgres_container h, wrapped_command command))
       ([dump_command tables source destination]
        @ (if reset
           then [[''dropdb'', ''-U'', ''postgres'', ''--if-exists'', destination],
                 [''createdb'', ''-U'', ''postgres'', destination]]
           else [])
        @ [citext_command destination, import_command destination])"
  by (simp add: split_database_def Let_def)

lemma split_database_mappings [simp]:
  "OrganizationMapping_objects (split_database h tables source destination reset verbose w) =
     OrganizationMapping_objects w"
  by (simp add: split_database_def Let_def)

lemma split_database_console_prefix:
  "\<exists>rest. console (split_database h tables source destination reset verbose w) =
     console w @ [''>> Dumping tables from '' @ source @ '' database''] @ rest"
  by (simp add: split_database_def Let_def)

lemma main_eq:
  "main h database reset verbose l w =
     split_database h
       (region_tables_seed @ map db_table (filter (allows REGION) (apps_get_models h)))
       database ''region'' reset verbose
       (split_database h
          (control_tables_seed @ map db_table (filter (allows CONTROL) (apps_get_models h)))
          database ''control'' reset verbose
          (revise_organization_mappings h l
             (w\<lparr>console := console w
                   @ map warning (filter (\<lambda>m. silo_limit m = None) (apps_get_models h))\<rparr>)))"
  by (simp add: main_def classify_models_eq Let_def)

lemma main_execs:
  "execs (main h database reset verbose l w) =
     execs w
     @ map (\<lambda>command. (postgres_container h, wrapped_command command))
         ([dump_command
             (control_tables_seed @ map db_table (filter (allows CONTROL) (apps_get_models h)))
             database ''control'']
          @ (if reset
             then [[''dropdb'', ''-U'', ''postgres'', ''--if-exists'', ''control''],
                   [''createdb'', ''-U'', ''postgres'', ''control'']]
             else [])
          @ [citext_command ''control'', import_command ''control''])
     @ map (\<lambda>command. (postgres_container h, wrapped_command command))
         ([dump_command
             (region_tables_seed @ map db_table (filter (allows REGION) (apps_get_models h)))
             database ''region'']
          @ (if reset
             then [[''dropdb'', ''-U'', ''postgres'', ''--if-exists'', ''region''],
                   [''createdb'', ''-U'', ''postgres'', ''region'']]
             else [])
          @ [citext_command ''region'', import_command ''region''])"
  by (simp only: main_eq split_database_execs revise_execs) simp

lemma main_console_prefix:
  "\<exists>rest. console (main h database reset verbose l w) =
     console w
     @ map warning (filter (\<lambda>m. silo_limit m = None) (apps_get_models h))
     @ [if SENTRY_MONOLITH_REGION h = l then not_modified_message
        else updated_message
               (length (filter (\<lambda>r. region_name r = l) (OrganizationMapping_objects w)))
               l (SENTRY_MONOLITH_REGION h)]
     @ [''>> Dumping tables from '' @ database @ '' database'']
     @ rest"
proof -
  let ?w1 = "w\<lparr>console := console w
               @ map warning (filter (\<lambda>m. silo_limit m = None) (apps_get_models h))\<rparr>"
  let ?w2 = "revise_organization_mappings h l ?w1"
  let ?C = "control_tables_seed @ map db_table (filter (allows CONTROL) (apps_get_models h))"
  let ?R = "region_tables_seed @ map db_table (filter (allows REGION) (apps_get_models h))"
  let ?w3 = "split_database h ?C database ''control'' reset verbose ?w2"
  obtain r1 where r1: "console ?w3 =
      console ?w2 @ [''>> Dumping tables from '' @ database @ '' database''] @ r1"
    using split_database_console_prefix by blast
  obtain r2 where r2: "console (split_database h ?R database ''region'' reset verbose ?w3) =
      console ?w3 @ [''>> Dumping tables from '' @ database @ '' database''] @ r2"
    using split_database_console_prefix by blast
  have eq: "console (main h database reset verbose l w) =
          console ?w2 @ [''>> Dumping tables from '' @ database @ '' database'']
            @ (r1 @ [''>> Dumping tables from '' @ database @ '' database''] @ r2)"
    by (simp only: main_eq r2 r1 append_assoc)
  have c2: "console ?w2 =
      console w
      @ map warning (filter (\<lambda>m. silo_limit m = None) (apps_get_models h))
      @ [if SENTRY_MONOLITH_REGION h = l then not_modified_message
         else updated_message
               (length (filter (\<lambda>r. region_name r = l) (OrganizationMapping_objects w)))
               l (SENTRY_MONOLITH_REGION h)]"
    by (simp add: revise_console)
  show ?thesis
    unfolding eq c2
    by (rule exI [of _ "r1 @ [''>> Dumping tables from '' @ database @ '' database''] @ r2"])
       (simp only: append_assoc)
qed

text \<open>
  C2, as stated, fails: \<open>split_database\<close> adds no table of its own. Called with the
  empty table list it builds a dump command without any \<open>-t\<close> argument, although both
  lists of framework tables start with \<open>django_migrations\<close>.
\<close>

theorem dump_without_framework_tables:
  "dump_command [] ''sentry'' ''control'' =
     [''pg_dump'', ''-U'', ''postgres'', ''-d'', ''sentry'', ''--clean'',
      ''>'', ''/tmp/control-tables.sql'']
   \<and> ''-t'' \<notin> set (dump_command [] ''sentry'' ''control'')
   \<and> ''django_migrations'' \<in> set control_tables_seed
   \<and> ''django_migrations'' \<in> set region_tables_seed
   \<and> ''django_migrations'' \<notin> set (dump_command [] ''sentry'' ''control'')"
  by (simp add: dump_command_def dump_file_def control_tables_seed_def region_tables_seed_def)

text \<open>
  C2, amended. The dump command is the fixed head, then \<open>-t table\<close> for each element of
  the given list in list order and nothing else, then the redirection; it is the first
  command \<open>split_database\<close> runs. The framework tables are dumped because \<open>main\<close>
  passes lists that start with them: its first command dumps the control seed followed
  by the tables of the models that allow CONTROL, and the first command of its second
  split dumps the region seed followed by the tables of the models that allow REGION.
\<close>

theorem dump_command_selects_given_tables:
  "dump_command tables source destination =
     [''pg_dump'', ''-U'', ''postgres'', ''-d'', source, ''--clean'']
       @ concat (map (\<lambda>table. [''-t'', table]) tables)
       @ [''>'', ''/tmp/'' @ destination @ ''-tables.sql'']
   \<and> execs (split_database h tables source destination reset verbose w) ! length (execs w) =
       (postgres_container h, wrapped_command (dump_command tables source destination))
   \<and> execs (main h database reset verbose l w) ! length (execs w) =
       (postgres_container h,
        wrapped_command
          (dump_command
             (control_tables_seed @ map db_table (filter (allows CONTROL) (apps_get_models h)))
             database ''control''))
   \<and> execs (main h database reset verbose l w) ! (length (execs w) + (if reset then 5 else 3)) =
       (postgres_container h,
        wrapped_command
          (dump_command
             (region_tables_seed @ map db_table (filter (allows REGION) (apps_get_models h)))
             database ''region''))"
proof -
  have "execs (split_database h tables source destination reset verbose w) ! length (execs w) =
          (postgres_container h, wrapped_command (dump_command tables source destination))"
    by (simp add: split_database_execs)
  moreover have "execs (main h database reset verbose l w) ! length (execs w) =
       (postgres_container h,
        wrapped_command
          (dump_command
             (control_tables_seed @ map db_table (filter (allows CONTROL) (apps_get_models h)))
             database ''control''))"
    by (simp add: main_execs)
  moreover have "execs (main h database reset verbose l w)
                   ! (length (execs w) + (if reset then 5 else 3)) =
       (postgres_container h,
        wrapped_command
          (dump_command
             (region_tables_seed @ map db_table (filter (allows REGION) (apps_get_models h)))
             database ''region''))"
    by (cases reset) (simp_all add: main_execs nth_append)
  ultimately show ?thesis
    by (simp only: dump_command_eq)
qed

text \<open>
  C6. The commands \<open>split_database\<close> runs in the postgres container, in order, after
  whatever ran before: the \<open>pg_dump\<close> of the given tables from the source with
  \<open>--clean\<close>, redirected to \<open>/tmp/{destination}-tables.sql\<close>; when \<open>reset\<close> is set,
  \<open>dropdb --if-exists\<close> of the destination and then \<open>createdb\<close>; the \<open>psql\<close> that
  creates the citext extension if it does not exist; the \<open>psql\<close> fed from the dump
  file.
\<close>

theorem split_database_step_order:
  "execs (split_database h tables source destination reset verbose w) =
     execs w @ map (\<lambda>command. (postgres_container h, wrapped_command command))
       ([[''pg_dump'', ''-U'', ''postgres'', ''-d'', source, ''--clean'']
           @ concat (map (\<lambda>table. [''-t'', table]) tables)
           @ [''>'', ''/tmp/'' @ destination @ ''-tables.sql'']]
        @ (if reset
           then [[''dropdb'', ''-U'', ''postgres'', ''--if-exists'', destination],
                 [''createdb'', ''-U'', ''postgres'', destination]]
           else [])
        @ [[''psql'', ''-U'', ''postgres'', destination, ''-c'',
            [CHR 0x27] @ ''CREATE EXTENSION IF NOT EXISTS citext'' @ [CHR 0x27]],
           [''psql'', ''-U'', ''postgres'', destination, ''<'',
            ''/tmp/'' @ destination @ ''-tables.sql'']])"
  by (simp only: split_database_execs dump_command_eq citext_command_def import_command_def
        dump_file_def)

text \<open>
  C7. \<open>main\<close> is the composition, in this order, of: the table lists (each seed followed
  by the tables of the models allowing the mode, with a warning printed for each model
  without silo limit), the mapping rewrite, the split of the control list into the
  database \<open>control\<close>, the split of the region list into the database \<open>region\<close>. The
  source of both splits is the \<open>database\<close> argument. The console shows the warnings,
  then the line of the mapping rewrite, then the first line of the control split; the
  container runs the commands of the control split, then those of the region split.
\<close>

theorem main_sequence:
  "main h database reset verbose l w =
     (let control_tables =
            control_tables_seed @ map db_table (filter (allows CONTROL) (apps_get_models h));
          region_tables =
            region_tables_seed @ map db_table (filter (allows REGION) (apps_get_models h));
          w1 = w\<lparr>console := console w
                 @ map warning (filter (\<lambda>m. silo_limit m = None) (apps_get_models h))\<rparr>;
          w2 = revise_organization_mappings h l w1;
          w3 = split_database h control_tables database ''control'' reset verbose w2;
          w4 = split_database h region_tables database ''region'' reset verbose w3
      in w4)
   \<and> execs (main h database reset verbose l w) =
       execs (split_database h
                (region_tables_seed @ map db_table (filter (allows REGION) (apps_get_models h)))
                database ''region'' reset verbose
                (split_database h
                   (control_tables_seed
                      @ map db_table (filter (allows CONTROL) (apps_get_models h)))
                   database ''control'' reset verbose w))
   \<and> OrganizationMapping_objects (main h database reset verbose l w) =
       OrganizationMapping_objects (revise_organization_mappings h l w)
   \<and> (\<exists>rest. console (main h database reset verbose l w) =
         console w
         @ map warning (filter (\<lambda>m. silo_limit m = None) (apps_get_models h))
         @ [last (console (revise_organization_mappings h l w))]
         @ [''>> Dumping tables from '' @ database @ '' database'']
         @ rest)"
proof -
  have "execs (main h database reset verbose l w) =
       execs (split_database h
                (region_tables_seed @ map db_table (filter (allows REGION) (apps_get_models h)))
                database ''region'' reset verbose
                (split_database h
                   (control_tables_seed
                      @ map db_table (filter (allows CONTROL) (apps_get_models h)))
                   database ''control'' reset verbose w))"
    by (simp only: main_execs split_database_execs) simp
  moreover have "OrganizationMapping_objects (main h database reset verbose l w) =
       OrganizationMapping_objects (revise_organization_mappings h l w)"
    by (cases "SENTRY_MONOLITH_REGION h = l")
       (simp_all add: main_eq revise_same revise_other)
  moreover have "\<exists>rest. console (main h database reset verbose l w) =
         console w
         @ map warning (filter (\<lambda>m. silo_limit m = None) (apps_get_models h))
         @ [last (console (revise_organization_mappings h l w))]
         @ [''>> Dumping tables from '' @ database @ '' database'']
         @ rest"
    using main_console_prefix [of h database reset verbose l w]
    by (simp add: revise_console)
  ultimately show ?thesis
    by (simp only: main_eq Let_def)
qed

text \<open>
  C10. What \<open>exec_run\<close> returns is the output the container captured, whatever the exit
  code: the value is the same when the container's exit code is replaced by any other.
\<close>

theorem exec_run_returns_output_only:
  "fst (exec_run h container command w) =
     snd (container_exec_run h (execs w) container (wrapped_command command))
   \<and> fst (exec_run
           (h\<lparr>container_exec_run :=
                (\<lambda>log container cmd.
                   (exit_code, snd (container_exec_run h log container cmd)))\<rparr>)
           container command w) =
       fst (exec_run h container command w)"
  by (simp add: exec_run_def Let_def split: prod.splits)

subsection \<open>Failing container commands\<close>

lemma always_succeeds_same [simp]:
  "postgres_container (always_succeeds h) = postgres_container h"
  "apps_get_models (always_succeeds h) = apps_get_models h"
  "SENTRY_MONOLITH_REGION (always_succeeds h) = SENTRY_MONOLITH_REGION h"
  by (simp_all add: always_succeeds_def postgres_container_def)

lemma reported_grow:
  assumes "reported h n w"
    and "execs w' = execs w"
    and "set (console w) \<subseteq> set (console w')"
  shows "reported h n w'"
  using assms unfolding reported_def list_all_iff by auto

lemma reported_echo: "reported h n w \<Longrightarrow> reported h n (echo line w)"
  by (rule reported_grow [where w = w]) auto

lemma reported_exec_run:
  assumes "reported h n w"
  shows "reported h n (snd (exec_run h container command w))"
  unfolding reported_def list_all_iff
proof
  let ?w' = "snd (exec_run h container command w)"
  fix i
  assume "i \<in> set [n..<length (execs ?w')]"
  then have i: "n \<le> i" "i \<le> length (execs w)"
    by auto
  show "set (failure_lines h (take i (execs ?w')) (fst (execs ?w' ! i)) (snd (execs ?w' ! i)))
          \<subseteq> set (console ?w')"
  proof (cases "i < length (execs w)")
    case True
    then have "set (failure_lines h (take i (execs w)) (fst (execs w ! i)) (snd (execs w ! i)))
                 \<subseteq> set (console w)"
      using assms i unfolding reported_def list_all_iff by simp
    then show ?thesis
      using True by (auto simp add: nth_append)
  next
    case False
    then have "i = length (execs w)"
      using i by simp
    then show ?thesis
      by simp
  qed
qed

lemma reported_revise:
  "reported h n w \<Longrightarrow> reported h n (revise_organization_mappings h l w)"
  by (rule reported_grow [where w = w])
     (cases "SENTRY_MONOLITH_REGION h = l"; auto simp add: revise_same revise_other)+

lemma reported_split_database:
  "reported h n w \<Longrightarrow>
     reported h n (split_database h tables source destination reset verbose w)"
  by (simp add: split_database_def Let_def reported_echo reported_exec_run)

lemma reported_start: "reported h (length (execs w)) w"
  by (simp add: reported_def)

lemma reported_main:
  assumes "reported h n w"
  shows "reported h n (main h database reset verbose l w)"
proof -
  have "reported h n (w\<lparr>console := console w
          @ map warning (filter (\<lambda>m. silo_limit m = None) (apps_get_models h))\<rparr>)"
    using assms by (rule reported_grow) simp_all
  then show ?thesis
    by (simp only: main_eq reported_split_database reported_revise)
qed

text \<open>
  C5. A command that the container answers with a non-zero exit code: \<open>exec_run\<close>
  prints the failure line and the line with the captured output, sends the command once,
  and returns the output as a value. The commands \<open>split_database\<close> and \<open>main\<close> send
  are those they send when every command succeeds, so no failure stops a later step or
  repeats one; and every command they send has its failure lines on the console.
\<close>

theorem exec_failure_reported_not_fatal:
  "(\<forall>exit_code output.
      container_exec_run h (execs w) container (wrapped_command command) = (exit_code, output)
      \<and> exit_code \<noteq> 0 \<longrightarrow>
      exec_run h container command w =
        (output,
         w\<lparr>console := console w
               @ [''Container operation Failed!'',
                  ''Container operation failed with '' @ str_output h output],
           execs := execs w @ [(container, wrapped_command command)]\<rparr>))
   \<and> execs (split_database h tables source destination reset verbose w) =
       execs (split_database (always_succeeds h) tables source destination reset verbose w)
   \<and> execs (main h database reset verbose l w) =
       execs (main (always_succeeds h) database reset verbose l w)
   \<and> reported h (length (execs w))
        (split_database h tables source destination reset verbose w)
   \<and> reported h (length (execs w)) (main h database reset verbose l w)"
proof -
  have "exec_run h container command w =
        (out,
         w\<lparr>console := console w
               @ [''Container operation Failed!'',
                  ''Container operation failed with '' @ str_output h out],
           execs := execs w @ [(container, wrapped_command command)]\<rparr>)"
    if "container_exec_run h (execs w) container (wrapped_command command) = (code, out)"
      and "code \<noteq> 0"
    for code out
    using that by (simp add: exec_run_def Let_def echo_def)
  moreover have "execs (split_database h tables source destination reset verbose w) =
       execs (split_database (always_succeeds h) tables source destination reset verbose w)"
    by (simp add: split_database_execs)
  moreover have "execs (main h database reset verbose l w) =
       execs (main (always_succeeds h) database reset verbose l w)"
    by (simp add: main_execs)
  moreover have "reported h (length (execs w))
        (split_database h tables source destination reset verbose w)"
    by (rule reported_split_database) (rule reported_start)
  moreover have "reported h (length (execs w)) (main h database reset verbose l w)"
    by (rule reported_main) (rule reported_start)
  ultimately show ?thesis
    by blast
qed

theorem exec_failure_reported_not_fatal_witness:
  "container_exec_run failing_host (execs w0) ''sentry-postgres-1''
       (wrapped_command [''dropdb'', ''control'']) = (1, ''boom'')
   \<and> exec_run failing_host ''sentry-postgres-1'' [''dropdb'', ''control''] w0 =
       (''boom'',
        w0\<lparr>console := [''Container operation Failed!'', ''Container operation failed with boom''],
           execs := [(''sentry-postgres-1'', wrapped_command [''dropdb'', ''control''])]\<rparr>)
   \<and> execs (split_database failing_host [''auth_user''] ''sentry'' ''control'' True False w0) =
       execs (split_database (always_succeeds failing_host)
                [''auth_user''] ''sentry'' ''control'' True False w0)
   \<and> length (execs (split_database failing_host
                [''auth_user''] ''sentry'' ''control'' True False w0)) = 5
   \<and> reported failing_host 0
        (split_database failing_host [''auth_user''] ''sentry'' ''control'' True False w0)
   \<and> length (execs (main failing_host ''sentry'' True False ''--monolith--'' w0)) = 10
   \<and> reported failing_host 0 (main failing_host ''sentry'' True False ''--monolith--'' w0)"
  using exec_failure_reported_not_fatal
    [of failing_host w0 "''sentry-postgres-1''" "[''dropdb'', ''control'']"
        "[''auth_user'']" "''sentry''" "''control''" True False "''sentry''" "''--monolith--''"]
  by (simp add: failing_host_def w0_def split_database_execs main_execs)

end
